theory Spec2Isabelle
  imports Main "HOL-Library.Word"
begin

section \<open>GpuStats: the aggregation tables of the GPU service\<close>

text \<open>
  A shallow embedding of \<^verbatim>\<open>services/gpuservice/gpustats/GpuStats.cpp\<close>.
  The class keeps two hash tables under one mutex, \<^verbatim>\<open>mGlobalStats\<close> (keyed by the
  driver version code) and \<^verbatim>\<open>mAppStats\<close> (keyed by a string built from the app
  package name and the version code).  Every public method takes the lock for its
  whole body, so a method is one atomic step on the pair of tables and is modelled as
  a function from the state before to the state after.
\<close>

subsection \<open>Hash tables\<close>

text \<open>
  A \<^verbatim>\<open>std::unordered_map\<close> is an association list: one pair for each element, in
  the order in which a range-for visits them.  The standard leaves that order open;
  the model lets a new element go to the end.  \<^verbatim>\<open>size()\<close> is the number of
  elements, \<^verbatim>\<open>count(k)\<close> is 0 or 1, \<^verbatim>\<open>insert\<close> does nothing when the key is
  there already, \<^verbatim>\<open>clear()\<close> is the empty list.
\<close>

type_synonym ('k, 'v) unordered_map = "('k \<times> 'v) list"

definition size_umap :: "('k, 'v) unordered_map \<Rightarrow> nat" where
  "size_umap m = length m"

definition count_umap :: "('k, 'v) unordered_map \<Rightarrow> 'k \<Rightarrow> nat" where
  "count_umap m k = (case map_of m k of None \<Rightarrow> 0 | Some v \<Rightarrow> 1)"

definition insert_umap :: "('k, 'v) unordered_map \<Rightarrow> 'k \<times> 'v \<Rightarrow> ('k, 'v) unordered_map" where
  "insert_umap m kv = (if count_umap m (fst kv) = 0 then m @ [kv] else m)"

text \<open>
  \<^verbatim>\<open>m[k]\<close> yields a reference to the element with key \<open>k\<close>, after adding a
  default-constructed one when there is none.  \<open>subscript_umap\<close> returns the table
  after that step together with the value the reference points to; \<open>store_umap\<close>
  is a write through the reference.
\<close>

definition subscript_umap :: "'v \<Rightarrow> ('k, 'v) unordered_map \<Rightarrow> 'k \<Rightarrow> ('k, 'v) unordered_map \<times> 'v" where
  "subscript_umap dflt m k =
     (case map_of m k of None \<Rightarrow> (m @ [(k, dflt)], dflt) | Some v \<Rightarrow> (m, v))"

fun store_umap :: "('k, 'v) unordered_map \<Rightarrow> 'k \<Rightarrow> 'v \<Rightarrow> ('k, 'v) unordered_map" where
  "store_umap [] k v = []"
| "store_umap (p # m) k v = (if fst p = k then (k, v) # m else p # store_umap m k v)"

subsection \<open>Data\<close>

text \<open>
  \<^verbatim>\<open>GraphicsEnv::Driver\<close>.  The source names five enumerators; every value that is
  not one of the four in the \<^verbatim>\<open>case\<close> labels takes the \<^verbatim>\<open>default\<close> branch.
\<close>

datatype Driver = GL | GL_UPDATED | VULKAN | VULKAN_UPDATED | ANGLE | OTHER int

type_synonym uint64_t = "64 word"
type_synonym int64_t = "64 word"

text \<open>
  Modelled from the spec: the declarations of \<^verbatim>\<open>GpuStatsGlobalInfo\<close> and
  \<^verbatim>\<open>GpuStatsAppInfo\<close> (graphicsenv/GpuStatsInfo.h) are not among the sources.  The
  fields are the ones \<^verbatim>\<open>GpuStats.cpp\<close> reads and writes; the spec describes the four
  counters as counts of insertions and gives them no width, so they are natural
  numbers here.  The version code of an app record is called
  \<open>appDriverVersionCode\<close>, since one theory cannot hold two fields of one name.
\<close>

record GpuStatsGlobalInfo =
  driverPackageName :: string
  driverVersionName :: string
  driverVersionCode :: uint64_t
  driverBuildTime :: int64_t
  glLoadingCount :: nat
  glLoadingFailureCount :: nat
  vkLoadingCount :: nat
  vkLoadingFailureCount :: nat

record GpuStatsAppInfo =
  appPackageName :: string
  appDriverVersionCode :: uint64_t
  glDriverLoadingTime :: "int64_t list"
  vkDriverLoadingTime :: "int64_t list"

text \<open>
  Modelled from the spec: the default-constructed records (same missing header).  A
  new global record carries "a single initial count" after its first event and a new
  app record one sample, so the counters start at zero and the sequences empty.
\<close>

definition GpuStatsGlobalInfo_default :: GpuStatsGlobalInfo where
  "GpuStatsGlobalInfo_default =
     \<lparr>driverPackageName = [], driverVersionName = [], driverVersionCode = 0,
      driverBuildTime = 0, glLoadingCount = 0, glLoadingFailureCount = 0,
      vkLoadingCount = 0, vkLoadingFailureCount = 0\<rparr>"

definition GpuStatsAppInfo_default :: GpuStatsAppInfo where
  "GpuStatsAppInfo_default =
     \<lparr>appPackageName = [], appDriverVersionCode = 0,
      glDriverLoadingTime = [], vkDriverLoadingTime = []\<rparr>"

text \<open>
  Modelled from the spec: \<^verbatim>\<open>MAX_NUM_APP_RECORDS\<close> is declared in GpuStats.h, which
  is not among the sources; the spec's scenarios use a capacity of 100.
\<close>

definition MAX_NUM_APP_RECORDS :: nat where
  "MAX_NUM_APP_RECORDS = 100"

record GpuStats =
  mGlobalStats :: "(uint64_t, GpuStatsGlobalInfo) unordered_map"
  mAppStats :: "(string, GpuStatsAppInfo) unordered_map"

definition GpuStats_init :: GpuStats where
  "GpuStats_init = \<lparr>mGlobalStats = [], mAppStats = []\<rparr>"

subsection \<open>\<^verbatim>\<open>std::to_string\<close> on an unsigned 64-bit value\<close>

definition digit_char :: "nat \<Rightarrow> char" where
  "digit_char d = ''0123456789'' ! d"

fun to_string_nat :: "nat \<Rightarrow> string" where
  "to_string_nat n =
     (if n < 10 then [digit_char n]
      else to_string_nat (n div 10) @ [digit_char (n mod 10)])"

declare to_string_nat.simps [simp del]

definition to_string :: "uint64_t \<Rightarrow> string" where
  "to_string v = to_string_nat (unat v)"

subsection \<open>The two static helpers\<close>

text \<open>
  \<open>addLoadingCount\<close> returns its \<^verbatim>\<open>bool\<close> together with the record the
  out-pointer refers to after the call.
\<close>

definition count_gl :: "bool \<Rightarrow> GpuStatsGlobalInfo \<Rightarrow> GpuStatsGlobalInfo" where
  "count_gl isDriverLoaded g =
     (let g1 = g\<lparr>glLoadingCount := glLoadingCount g + 1\<rparr>
      in if \<not> isDriverLoaded
         then g1\<lparr>glLoadingFailureCount := glLoadingFailureCount g1 + 1\<rparr> else g1)"

definition count_vk :: "bool \<Rightarrow> GpuStatsGlobalInfo \<Rightarrow> GpuStatsGlobalInfo" where
  "count_vk isDriverLoaded g =
     (let g1 = g\<lparr>vkLoadingCount := vkLoadingCount g + 1\<rparr>
      in if \<not> isDriverLoaded
         then g1\<lparr>vkLoadingFailureCount := vkLoadingFailureCount g1 + 1\<rparr> else g1)"

definition addLoadingCount :: "Driver \<Rightarrow> bool \<Rightarrow> GpuStatsGlobalInfo \<Rightarrow> bool \<times> GpuStatsGlobalInfo" where
  "addLoadingCount driver isDriverLoaded outGlobalInfo =
     (case driver of
        GL \<Rightarrow> (True, count_gl isDriverLoaded outGlobalInfo)
      | GL_UPDATED \<Rightarrow> (True, count_gl isDriverLoaded outGlobalInfo)
      | VULKAN \<Rightarrow> (True, count_vk isDriverLoaded outGlobalInfo)
      | VULKAN_UPDATED \<Rightarrow> (True, count_vk isDriverLoaded outGlobalInfo)
      | _ \<Rightarrow> (False, outGlobalInfo))"

definition addLoadingTime :: "Driver \<Rightarrow> int64_t \<Rightarrow> GpuStatsAppInfo \<Rightarrow> GpuStatsAppInfo" where
  "addLoadingTime driver driverLoadingTime outAppInfo =
     (case driver of
        GL \<Rightarrow> outAppInfo\<lparr>glDriverLoadingTime := glDriverLoadingTime outAppInfo @ [driverLoadingTime]\<rparr>
      | GL_UPDATED \<Rightarrow> outAppInfo\<lparr>glDriverLoadingTime := glDriverLoadingTime outAppInfo @ [driverLoadingTime]\<rparr>
      | VULKAN \<Rightarrow> outAppInfo\<lparr>vkDriverLoadingTime := vkDriverLoadingTime outAppInfo @ [driverLoadingTime]\<rparr>
      | VULKAN_UPDATED \<Rightarrow> outAppInfo\<lparr>vkDriverLoadingTime := vkDriverLoadingTime outAppInfo @ [driverLoadingTime]\<rparr>
      | _ \<Rightarrow> outAppInfo)"

subsection \<open>\<^verbatim>\<open>GpuStats::insert\<close>\<close>

text \<open>
  The body has two parts in sequence, and each \<^verbatim>\<open>return\<close> ends the call with the
  state reached so far.  \<open>insert_app\<close> is the second part (from the capacity test
  to the end), \<open>insert_stats\<close> the whole method: the first part either returns
  early or hands the state with the new global table to \<open>insert_app\<close>.
\<close>

definition appStatsKey :: "string \<Rightarrow> uint64_t \<Rightarrow> string" where
  "appStatsKey appPackageName' driverVersionCode' = appPackageName' @ to_string driverVersionCode'"

definition insert_app :: "uint64_t \<Rightarrow> string \<Rightarrow> Driver \<Rightarrow> int64_t \<Rightarrow> GpuStats \<Rightarrow> GpuStats" where
  "insert_app driverVersionCode' appPackageName' driver driverLoadingTime s =
     (if size_umap (mAppStats s) \<ge> MAX_NUM_APP_RECORDS then s
      else
        let key = appStatsKey appPackageName' driverVersionCode' in
        if count_umap (mAppStats s) key = 0 then
          let appInfo = addLoadingTime driver driverLoadingTime GpuStatsAppInfo_default;
              appInfo = appInfo\<lparr>appPackageName := appPackageName'\<rparr>;
              appInfo = appInfo\<lparr>appDriverVersionCode := driverVersionCode'\<rparr>
          in s\<lparr>mAppStats := insert_umap (mAppStats s) (key, appInfo)\<rparr>
        else
          let (m, a) = subscript_umap GpuStatsAppInfo_default (mAppStats s) key
          in s\<lparr>mAppStats := store_umap m key (addLoadingTime driver driverLoadingTime a)\<rparr>)"

definition insert_stats ::
  "string \<Rightarrow> string \<Rightarrow> uint64_t \<Rightarrow> int64_t \<Rightarrow> string \<Rightarrow> Driver \<Rightarrow> bool \<Rightarrow> int64_t \<Rightarrow> GpuStats \<Rightarrow> GpuStats" where
  "insert_stats driverPackageName' driverVersionName' driverVersionCode' driverBuildTime'
                appPackageName' driver isDriverLoaded driverLoadingTime s =
     (if count_umap (mGlobalStats s) driverVersionCode' = 0 then
        let (ok, globalInfo) = addLoadingCount driver isDriverLoaded GpuStatsGlobalInfo_default in
        if \<not> ok then s
        else
          let globalInfo = globalInfo\<lparr>driverPackageName := driverPackageName'\<rparr>;
              globalInfo = globalInfo\<lparr>driverVersionName := driverVersionName'\<rparr>;
              globalInfo = globalInfo\<lparr>driverVersionCode := driverVersionCode'\<rparr>;
              globalInfo = globalInfo\<lparr>driverBuildTime := driverBuildTime'\<rparr>
          in insert_app driverVersionCode' appPackageName' driver driverLoadingTime
               (s\<lparr>mGlobalStats := insert_umap (mGlobalStats s) (driverVersionCode', globalInfo)\<rparr>)
      else
        let (m, g) = subscript_umap GpuStatsGlobalInfo_default (mGlobalStats s) driverVersionCode';
            (ok, g') = addLoadingCount driver isDriverLoaded g;
            s1 = s\<lparr>mGlobalStats := store_umap m driverVersionCode' g'\<rparr>
        in if \<not> ok then s1
           else insert_app driverVersionCode' appPackageName' driver driverLoadingTime s1)"

subsection \<open>\<^verbatim>\<open>GpuStats::dump\<close> and \<^verbatim>\<open>GpuStats::pullGlobalStats\<close>\<close>

text \<open>
  \<^verbatim>\<open>toString()\<close> of the two record classes is defined outside the sources; the dump
  functions take it as a parameter (\<open>gstr\<close> for a global record, \<open>astr\<close> for an
  app record).  The output string is passed in and returned.
\<close>

definition newline :: string where
  "newline = [CHR 0x0A]"

definition dumpGlobalLocked :: "(GpuStatsGlobalInfo \<Rightarrow> string) \<Rightarrow> GpuStats \<Rightarrow> string \<Rightarrow> string" where
  "dumpGlobalLocked gstr s result =
     foldl (\<lambda>r ele. (r @ gstr (snd ele)) @ newline) result (mGlobalStats s)"

definition dumpAppLocked :: "(GpuStatsAppInfo \<Rightarrow> string) \<Rightarrow> GpuStats \<Rightarrow> string \<Rightarrow> string" where
  "dumpAppLocked astr s result =
     foldl (\<lambda>r ele. (r @ astr (snd ele)) @ newline) result (mAppStats s)"

text \<open>
  \<open>dump\<close>: \<open>args\<close> are the arguments as the 8-bit strings that
  \<^verbatim>\<open>String8(args[i]).c_str()\<close> puts into \<^verbatim>\<open>argsSet\<close>; \<open>result\<close> is the output
  pointer, \<open>None\<close> for \<^verbatim>\<open>nullptr\<close>.  The call returns the messages written with
  \<^verbatim>\<open>ALOGE\<close>, the output string after the call, and the state after the call.
\<close>

record dump_outcome =
  logged :: "string list"
  report :: "string option"
  state_after :: GpuStats

definition dump ::
  "(GpuStatsGlobalInfo \<Rightarrow> string) \<Rightarrow> (GpuStatsAppInfo \<Rightarrow> string) \<Rightarrow> string list \<Rightarrow> string option \<Rightarrow> GpuStats \<Rightarrow> dump_outcome" where
  "dump gstr astr args result s =
     (case result of
        None \<Rightarrow> \<lparr>logged = [''Dump result shouldn't be nullptr.''], report = None, state_after = s\<rparr>
      | Some r0 \<Rightarrow>
          let dumpAll = True;
              argsSet = set args;
              dumpGlobal = (''--global'' \<in> argsSet);
              (r1, dumpAll) = (if dumpGlobal then (dumpGlobalLocked gstr s r0, False) else (r0, dumpAll));
              dumpApp = (''--app'' \<in> argsSet);
              (r2, dumpAll) = (if dumpApp then (dumpAppLocked astr s r1, False) else (r1, dumpAll));
              (s', dumpAll) =
                (if ''--clear'' \<in> argsSet then
                   let clearAll = True;
                       (sa, clearAll) = (if dumpGlobal then (s\<lparr>mGlobalStats := []\<rparr>, False) else (s, clearAll));
                       (sb, clearAll) = (if dumpApp then (sa\<lparr>mAppStats := []\<rparr>, False) else (sa, clearAll));
                       sc = (if clearAll then sb\<lparr>mGlobalStats := [], mAppStats := []\<rparr> else sb)
                   in (sc, False)
                 else (s, dumpAll));
              r3 = (if dumpAll then dumpAppLocked astr s' (dumpGlobalLocked gstr s' r2) else r2)
          in \<lparr>logged = [], report = Some r3, state_after = s'\<rparr>)"

text \<open>
  \<open>pullGlobalStats\<close>: \<open>outStats\<close> is the vector the caller passes; the call returns
  the vector and the state after it.
\<close>

definition pullGlobalStats :: "GpuStatsGlobalInfo list \<Rightarrow> GpuStats \<Rightarrow> GpuStatsGlobalInfo list \<times> GpuStats" where
  "pullGlobalStats outStats s =
     (let outStats = [];
          outStats = foldl (\<lambda>out ele. out @ [snd ele]) outStats (mGlobalStats s)
      in (outStats, s\<lparr>mGlobalStats := []\<rparr>))"

subsection \<open>Calls and runs\<close>

text \<open>
  The public interface as data: one constructor for each method, with its arguments.
  \<open>step\<close> performs one call on the tables and \<open>run\<close> a sequence of calls, from
  left to right.
\<close>

datatype insert_call =
  InsertCall (arg_driverPackageName: string) (arg_driverVersionName: string)
    (arg_driverVersionCode: uint64_t) (arg_driverBuildTime: int64_t)
    (arg_appPackageName: string) (arg_driver: Driver) (arg_isDriverLoaded: bool)
    (arg_driverLoadingTime: int64_t)

fun do_insert :: "insert_call \<Rightarrow> GpuStats \<Rightarrow> GpuStats" where
  "do_insert (InsertCall dpn dvn dvc dbt app driver loaded time) s =
     insert_stats dpn dvn dvc dbt app driver loaded time s"

definition insert_all :: "insert_call list \<Rightarrow> GpuStats \<Rightarrow> GpuStats" where
  "insert_all cs s = foldl (\<lambda>s c. do_insert c s) s cs"

datatype call =
  Insert insert_call
| Dump "string list" "string option"
| PullGlobalStats "GpuStatsGlobalInfo list"

fun step ::
  "(GpuStatsGlobalInfo \<Rightarrow> string) \<Rightarrow> (GpuStatsAppInfo \<Rightarrow> string) \<Rightarrow> GpuStats \<Rightarrow> call \<Rightarrow> GpuStats" where
  "step gstr astr s (Insert c) = do_insert c s"
| "step gstr astr s (Dump args result) = state_after (dump gstr astr args result s)"
| "step gstr astr s (PullGlobalStats outStats) = snd (pullGlobalStats outStats s)"

definition run ::
  "(GpuStatsGlobalInfo \<Rightarrow> string) \<Rightarrow> (GpuStatsAppInfo \<Rightarrow> string) \<Rightarrow> call list \<Rightarrow> GpuStats \<Rightarrow> GpuStats" where
  "run gstr astr cs s = foldl (step gstr astr) s cs"

text \<open>The driver variants that \<open>addLoadingCount\<close> counts, by family.\<close>

definition gl_family :: "Driver \<Rightarrow> bool" where
  "gl_family d = (d = GL \<or> d = GL_UPDATED)"

definition vk_family :: "Driver \<Rightarrow> bool" where
  "vk_family d = (d = VULKAN \<or> d = VULKAN_UPDATED)"

definition supported :: "Driver \<Rightarrow> bool" where
  "supported d = (gl_family d \<or> vk_family d)"

text \<open>
  Counting the calls of a sequence: those of the OpenGL family, those of them whose
  driver did not load, and the same for Vulkan.
\<close>

definition gl_total :: "insert_call list \<Rightarrow> nat" where
  "gl_total cs = length (filter (\<lambda>c. gl_family (arg_driver c)) cs)"

definition gl_failed :: "insert_call list \<Rightarrow> nat" where
  "gl_failed cs = length (filter (\<lambda>c. gl_family (arg_driver c) \<and> \<not> arg_isDriverLoaded c) cs)"

definition vk_total :: "insert_call list \<Rightarrow> nat" where
  "vk_total cs = length (filter (\<lambda>c. vk_family (arg_driver c)) cs)"

definition vk_failed :: "insert_call list \<Rightarrow> nat" where
  "vk_failed cs = length (filter (\<lambda>c. vk_family (arg_driver c) \<and> \<not> arg_isDriverLoaded c) cs)"

text \<open>The bound that the capacity test of \<open>insert\<close> is there to keep.\<close>

definition app_within_capacity :: "GpuStats \<Rightarrow> bool" where
  "app_within_capacity s = (size_umap (mAppStats s) \<le> MAX_NUM_APP_RECORDS)"

text \<open>
  The scenario of the spec: two OpenGL loads for one driver version and one app, the
  second one failing.
\<close>

definition scenario_calls :: "insert_call list" where
  "scenario_calls =
     [InsertCall ''drv'' ''1.0'' 5 1000 ''com.foo'' GL True 12,
      InsertCall ''drv'' ''1.0'' 5 1000 ''com.foo'' GL False 30]"



section \<open>Facts about the tables and the helpers\<close>

lemma count_umap_0_iff: "count_umap m k = 0 \<longleftrightarrow> map_of m k = None"
  by (simp add: count_umap_def split: option.splits)

lemma store_umap_same: "map_of m k = Some v \<Longrightarrow> store_umap m k v = m"
  by (induction m) (auto split: if_splits)

lemma length_store_umap: "length (store_umap m k v) = length m"
  by (induction m) auto

lemma map_of_store_umap:
  "map_of (store_umap m k v) k' = (if k' = k \<and> map_of m k \<noteq> None then Some v else map_of m k')"
  by (induction m) auto

lemma subscript_umap_present:
  "map_of m k = Some v \<Longrightarrow> subscript_umap dflt m k = (m, v)"
  by (simp add: subscript_umap_def)

lemma addLoadingCount_unsupported:
  "\<not> supported driver \<Longrightarrow> addLoadingCount driver loaded g = (False, g)"
  by (cases driver) (simp_all add: addLoadingCount_def supported_def gl_family_def vk_family_def)

lemma pull_fold: "foldl (\<lambda>out ele. out @ [snd ele]) acc m = acc @ map snd m"
  by (induction m arbitrary: acc) auto

lemma pullGlobalStats_eq:
  "pullGlobalStats outStats s = (map snd (mGlobalStats s), s\<lparr>mGlobalStats := []\<rparr>)"
  by (simp add: pullGlobalStats_def pull_fold)

lemma dump_depends_on_flags:
  assumes "(''--global'' \<in> set args') = (''--global'' \<in> set args)"
    and "(''--app'' \<in> set args') = (''--app'' \<in> set args)"
    and "(''--clear'' \<in> set args') = (''--clear'' \<in> set args)"
  shows "dump gstr astr args' result s = dump gstr astr args result s"
  by (cases result) (simp_all add: dump_def Let_def assms)

lemma dump_no_flags:
  assumes "''--global'' \<notin> set args" "''--app'' \<notin> set args" "''--clear'' \<notin> set args"
  shows "dump gstr astr args (Some r0) s =
     \<lparr>logged = [], report = Some (dumpAppLocked astr s (dumpGlobalLocked gstr s r0)), state_after = s\<rparr>"
  using assms by (simp add: dump_def Let_def)

lemma dump_clear_only:
  assumes "''--global'' \<notin> set args" "''--app'' \<notin> set args" "''--clear'' \<in> set args"
  shows "dump gstr astr args (Some r0) s =
     \<lparr>logged = [], report = Some r0, state_after = s\<lparr>mGlobalStats := [], mAppStats := []\<rparr>\<rparr>"
  using assms by (simp add: dump_def Let_def)

lemma dump_lines_fold:
  "foldl (\<lambda>r ele. r @ f (snd ele) @ newline) result m =
     result @ concat (map (\<lambda>ele. f (snd ele) @ newline) m)"
  by (induction m arbitrary: result) simp_all

lemma dumpGlobalLocked_concat:
  "dumpGlobalLocked gstr s result =
     result @ concat (map (\<lambda>ele. gstr (snd ele) @ newline) (mGlobalStats s))"
  by (simp add: dumpGlobalLocked_def dump_lines_fold)

lemma dumpAppLocked_concat:
  "dumpAppLocked astr s result =
     result @ concat (map (\<lambda>ele. astr (snd ele) @ newline) (mAppStats s))"
  by (simp add: dumpAppLocked_def dump_lines_fold)

section \<open>The claims\<close>

subsection \<open>C5: an unsupported driver variant\<close>

text \<open>
  C5.  In every state, an \<open>insert\<close> whose driver variant is none of \<open>GL\<close>,
  \<open>GL_UPDATED\<close>, \<open>VULKAN\<close>, \<open>VULKAN_UPDATED\<close> returns the state it was given:
  the global table and the app table are both exactly as before, so no record is
  created, incremented or appended to.
\<close>

theorem insert_unsupported_noop:
  "\<not> supported driver \<Longrightarrow>
     insert_stats driverPackageName' driverVersionName' driverVersionCode' driverBuildTime'
       appPackageName' driver isDriverLoaded driverLoadingTime s = s"
proof -
  assume u: "\<not> supported driver"
  show ?thesis
  proof (cases "map_of (mGlobalStats s) driverVersionCode'")
    case None
    then show ?thesis
      by (simp add: insert_stats_def count_umap_0_iff addLoadingCount_unsupported [OF u])
  next
    case (Some g)
    then show ?thesis
      by (simp add: insert_stats_def count_umap_0_iff addLoadingCount_unsupported [OF u]
          subscript_umap_present store_umap_same)
  qed
qed

theorem insert_unsupported_noop_witness:
  "\<not> supported ANGLE \<and>
   insert_stats ''drv'' ''2.0'' 5 2000 ''com.bar'' ANGLE False 30
     (insert_stats ''drv'' ''1.0'' 5 1000 ''com.foo'' GL True 12 GpuStats_init)
   = insert_stats ''drv'' ''1.0'' 5 1000 ''com.foo'' GL True 12 GpuStats_init"
proof -
  have u: "\<not> supported ANGLE"
    by (simp add: supported_def gl_family_def vk_family_def)
  show ?thesis
    using u insert_unsupported_noop [OF u] by simp
qed

subsection \<open>C6: pullGlobalStats\<close>

text \<open>
  C6.  In every state, \<open>pullGlobalStats\<close> returns the global records of the table
  at the time of the call (in the table's order, whatever the vector held before),
  leaves the global table empty and the app table as it was; a second call right
  after it returns the empty sequence.
\<close>

theorem pullGlobalStats_returns_and_resets:
  "fst (pullGlobalStats outStats s) = map snd (mGlobalStats s)
   \<and> mGlobalStats (snd (pullGlobalStats outStats s)) = []
   \<and> mAppStats (snd (pullGlobalStats outStats s)) = mAppStats s
   \<and> fst (pullGlobalStats outStats' (snd (pullGlobalStats outStats s))) = []"
  by (simp add: pullGlobalStats_eq)

subsection \<open>C9: dump with a null output\<close>

text \<open>
  C9.  For every state and every argument list, \<open>dump\<close> with a null output
  pointer logs one error and returns: there is no output, and both tables are as
  before, also when \<open>--clear\<close> is among the arguments.  The function is total, so
  the call returns and raises nothing.
\<close>

theorem dump_nullptr_no_work:
  "dump gstr astr args None s =
     \<lparr>logged = [''Dump result shouldn't be nullptr.''], report = None, state_after = s\<rparr>"
  by (simp add: dump_def)

subsection \<open>C10: arguments that are no flags\<close>

text \<open>
  C10.  Let \<open>extra\<close> hold no string among \<open>--global\<close>, \<open>--app\<close> and
  \<open>--clear\<close>.  Then adding the strings of \<open>extra\<close> to any argument list, at any
  positions, changes nothing in what \<open>dump\<close> logs, writes and does to the tables;
  and \<open>dump\<close> on \<open>extra\<close> alone is \<open>dump\<close> on no arguments: with an output
  string it appends the global table and then the app table, and clears nothing.
  The output afterwards is the output before, followed by one line for each global
  record (its text and a newline) and then one line for each app record, in table
  order.
\<close>

theorem dump_ignores_unrecognized:
  assumes "set extra \<inter> {''--global'', ''--app'', ''--clear''} = {}"
  shows "(set args' = set args \<union> set extra \<longrightarrow>
            dump gstr astr args' result s = dump gstr astr args result s)
       \<and> dump gstr astr extra result s = dump gstr astr [] result s
       \<and> dump gstr astr extra (Some r0) s =
           \<lparr>logged = [], report = Some (dumpAppLocked astr s (dumpGlobalLocked gstr s r0)),
            state_after = s\<rparr>
       \<and> dump gstr astr extra (Some r0) s =
           \<lparr>logged = [],
            report = Some (r0 @ concat (map (\<lambda>ele. gstr (snd ele) @ newline) (mGlobalStats s))
                             @ concat (map (\<lambda>ele. astr (snd ele) @ newline) (mAppStats s))),
            state_after = s\<rparr>"
proof -
  have e: "''--global'' \<notin> set extra" "''--app'' \<notin> set extra" "''--clear'' \<notin> set extra"
    using assms by auto
  have 1: "set args' = set args \<union> set extra \<longrightarrow>
            dump gstr astr args' result s = dump gstr astr args result s"
  proof
    assume eq: "set args' = set args \<union> set extra"
    show "dump gstr astr args' result s = dump gstr astr args result s"
      by (rule dump_depends_on_flags) (simp_all add: eq e)
  qed
  have 2: "dump gstr astr extra result s = dump gstr astr [] result s"
    by (rule dump_depends_on_flags) (simp_all add: e)
  have 3: "dump gstr astr extra (Some r0) s =
           \<lparr>logged = [], report = Some (dumpAppLocked astr s (dumpGlobalLocked gstr s r0)),
            state_after = s\<rparr>"
    by (rule dump_no_flags) (rule e)+
  have 4: "dumpAppLocked astr s (dumpGlobalLocked gstr s r0) =
      r0 @ concat (map (\<lambda>ele. gstr (snd ele) @ newline) (mGlobalStats s))
         @ concat (map (\<lambda>ele. astr (snd ele) @ newline) (mAppStats s))"
    by (simp add: dumpGlobalLocked_concat dumpAppLocked_concat)
  from 1 2 3 4 show ?thesis by simp
qed

theorem dump_ignores_unrecognized_witness:
  "set [''--verbose'', ''-x''] \<inter> {''--global'', ''--app'', ''--clear''} = {}
   \<and> set [''--verbose'', ''--app'', ''-x'', ''--clear''] = set [''--app'', ''--clear''] \<union> set [''--verbose'', ''-x'']
   \<and> dump driverPackageName appPackageName [''--verbose'', ''--app'', ''-x'', ''--clear''] (Some ''report:'')
         (insert_stats ''drv'' ''1.0'' 5 1000 ''com.foo'' GL True 12 GpuStats_init)
     = dump driverPackageName appPackageName [''--app'', ''--clear''] (Some ''report:'')
         (insert_stats ''drv'' ''1.0'' 5 1000 ''com.foo'' GL True 12 GpuStats_init)
   \<and> dump driverPackageName appPackageName [''--verbose'', ''-x''] (Some ''report:'')
         (insert_stats ''drv'' ''1.0'' 5 1000 ''com.foo'' GL True 12 GpuStats_init)
     = dump driverPackageName appPackageName [] (Some ''report:'')
         (insert_stats ''drv'' ''1.0'' 5 1000 ''com.foo'' GL True 12 GpuStats_init)
   \<and> dump driverPackageName appPackageName [''--verbose'', ''-x''] (Some ''report:'')
         (insert_stats ''drv'' ''1.0'' 5 1000 ''com.foo'' GL True 12 GpuStats_init)
     = \<lparr>logged = [],
        report = Some (''report:'' @ ''drv'' @ [CHR 0x0A] @ ''com.foo'' @ [CHR 0x0A]),
        state_after =
          \<lparr>mGlobalStats =
             [(5, \<lparr>driverPackageName = ''drv'', driverVersionName = ''1.0'', driverVersionCode = 5,
                   driverBuildTime = 1000, glLoadingCount = 1, glLoadingFailureCount = 0,
                   vkLoadingCount = 0, vkLoadingFailureCount = 0\<rparr>)],
            mAppStats =
             [(''com.foo5'', \<lparr>appPackageName = ''com.foo'', appDriverVersionCode = 5,
                              glDriverLoadingTime = [12], vkDriverLoadingTime = []\<rparr>)]\<rparr>\<rparr>
   \<and> dump driverPackageName appPackageName [''--verbose'', ''--app'', ''-x'', ''--clear''] (Some ''report:'')
         (insert_stats ''drv'' ''1.0'' 5 1000 ''com.foo'' GL True 12 GpuStats_init)
     = \<lparr>logged = [],
        report = Some (''report:'' @ ''com.foo'' @ [CHR 0x0A]),
        state_after =
          \<lparr>mGlobalStats =
             [(5, \<lparr>driverPackageName = ''drv'', driverVersionName = ''1.0'', driverVersionCode = 5,
                   driverBuildTime = 1000, glLoadingCount = 1, glLoadingFailureCount = 0,
                   vkLoadingCount = 0, vkLoadingFailureCount = 0\<rparr>)],
            mAppStats = []\<rparr>\<rparr>"
proof -
  let ?s = "insert_stats ''drv'' ''1.0'' 5 1000 ''com.foo'' GL True 12 GpuStats_init"
  have h: "set [''--verbose'', ''-x''] \<inter> {''--global'', ''--app'', ''--clear''} = {}"
    by simp
  have e: "set [''--verbose'', ''--app'', ''-x'', ''--clear''] = set [''--app'', ''--clear''] \<union> set [''--verbose'', ''-x'']"
    by auto
  have st: "?s =
          \<lparr>mGlobalStats =
             [(5, \<lparr>driverPackageName = ''drv'', driverVersionName = ''1.0'', driverVersionCode = 5,
                   driverBuildTime = 1000, glLoadingCount = 1, glLoadingFailureCount = 0,
                   vkLoadingCount = 0, vkLoadingFailureCount = 0\<rparr>)],
            mAppStats =
             [(''com.foo5'', \<lparr>appPackageName = ''com.foo'', appDriverVersionCode = 5,
                              glDriverLoadingTime = [12], vkDriverLoadingTime = []\<rparr>)]\<rparr>"
    by code_simp
  have sel: "dump driverPackageName appPackageName [''--app'', ''--clear''] (Some ''report:'') ?s
     = \<lparr>logged = [],
        report = Some (''report:'' @ ''com.foo'' @ [CHR 0x0A]),
        state_after =
          \<lparr>mGlobalStats =
             [(5, \<lparr>driverPackageName = ''drv'', driverVersionName = ''1.0'', driverVersionCode = 5,
                   driverBuildTime = 1000, glLoadingCount = 1, glLoadingFailureCount = 0,
                   vkLoadingCount = 0, vkLoadingFailureCount = 0\<rparr>)],
            mAppStats = []\<rparr>\<rparr>"
    by code_simp
  note th = dump_ignores_unrecognized [OF h,
        of "[''--verbose'', ''--app'', ''-x'', ''--clear'']" "[''--app'', ''--clear'']"
           driverPackageName appPackageName "Some ''report:''" ?s "''report:''"]
  from th e have a: "dump driverPackageName appPackageName [''--verbose'', ''--app'', ''-x'', ''--clear'']
       (Some ''report:'') ?s
     = dump driverPackageName appPackageName [''--app'', ''--clear''] (Some ''report:'') ?s"
    by blast
  from th have b: "dump driverPackageName appPackageName [''--verbose'', ''-x''] (Some ''report:'') ?s
     = dump driverPackageName appPackageName [] (Some ''report:'') ?s"
    by blast
  from th have "dump driverPackageName appPackageName [''--verbose'', ''-x''] (Some ''report:'') ?s =
           \<lparr>logged = [],
            report = Some (''report:'' @ concat (map (\<lambda>ele. driverPackageName (snd ele) @ newline) (mGlobalStats ?s))
                             @ concat (map (\<lambda>ele. appPackageName (snd ele) @ newline) (mAppStats ?s))),
            state_after = ?s\<rparr>"
    by blast
  then have c: "dump driverPackageName appPackageName [''--verbose'', ''-x''] (Some ''report:'') ?s
     = \<lparr>logged = [],
        report = Some (''report:'' @ ''drv'' @ [CHR 0x0A] @ ''com.foo'' @ [CHR 0x0A]),
        state_after =
          \<lparr>mGlobalStats =
             [(5, \<lparr>driverPackageName = ''drv'', driverVersionName = ''1.0'', driverVersionCode = 5,
                   driverBuildTime = 1000, glLoadingCount = 1, glLoadingFailureCount = 0,
                   vkLoadingCount = 0, vkLoadingFailureCount = 0\<rparr>)],
            mAppStats =
             [(''com.foo5'', \<lparr>appPackageName = ''com.foo'', appDriverVersionCode = 5,
                              glDriverLoadingTime = [12], vkDriverLoadingTime = []\<rparr>)]\<rparr>\<rparr>"
    by (simp add: st newline_def)
  from h e a b c sel show ?thesis by simp
qed

subsection \<open>C8: the identity of a global record\<close>

lemma mGlobalStats_insert_app:
  "mGlobalStats (insert_app code app driver time s) = mGlobalStats s"
  by (simp add: insert_app_def Let_def split: prod.splits)

lemma addLoadingCount_fst:
  "fst (addLoadingCount driver loaded g) = supported driver"
  by (cases driver) (simp_all add: addLoadingCount_def supported_def gl_family_def vk_family_def)

lemma addLoadingCount_counters:
  "snd (addLoadingCount driver loaded g) =
     g\<lparr>glLoadingCount := glLoadingCount g + (if gl_family driver then 1 else 0),
       glLoadingFailureCount := glLoadingFailureCount g + (if gl_family driver \<and> \<not> loaded then 1 else 0),
       vkLoadingCount := vkLoadingCount g + (if vk_family driver then 1 else 0),
       vkLoadingFailureCount := vkLoadingFailureCount g + (if vk_family driver \<and> \<not> loaded then 1 else 0)\<rparr>"
  by (cases driver)
     (simp_all add: addLoadingCount_def count_gl_def count_vk_def gl_family_def vk_family_def Let_def)

lemma insert_stats_global_absent:
  assumes "map_of (mGlobalStats s) code = None"
  shows "mGlobalStats (insert_stats dpn dvn code dbt app driver loaded time s) =
     (if supported driver
      then mGlobalStats s @
           [(code, (snd (addLoadingCount driver loaded GpuStatsGlobalInfo_default))
                     \<lparr>driverPackageName := dpn, driverVersionName := dvn,
                      driverVersionCode := code, driverBuildTime := dbt\<rparr>)]
      else mGlobalStats s)"
  using assms
  by (simp add: insert_stats_def count_umap_0_iff mGlobalStats_insert_app insert_umap_def
      split_def Let_def addLoadingCount_fst)

lemma insert_stats_global_present:
  assumes "map_of (mGlobalStats s) code = Some g"
  shows "mGlobalStats (insert_stats dpn dvn code dbt app driver loaded time s) =
           store_umap (mGlobalStats s) code (snd (addLoadingCount driver loaded g))"
  using assms
  by (simp add: insert_stats_def count_umap_0_iff subscript_umap_present mGlobalStats_insert_app
      split_def Let_def)

text \<open>
  C8.  When the global table has a record for the version code, an \<open>insert\<close> with
  that code and a supported driver variant leaves the record's package name, version
  name, version code and build time as they are, whatever the call supplies for
  them: the record afterwards is the record before with its counters advanced, and
  nothing else.
\<close>

theorem insert_keeps_identity:
  assumes "map_of (mGlobalStats s) code = Some g" and "supported driver"
  shows "\<exists>g'. map_of (mGlobalStats (insert_stats dpn dvn code dbt app driver loaded time s)) code = Some g'
       \<and> driverPackageName g' = driverPackageName g
       \<and> driverVersionName g' = driverVersionName g
       \<and> driverVersionCode g' = driverVersionCode g
       \<and> driverBuildTime g' = driverBuildTime g
       \<and> g' = g\<lparr>glLoadingCount := glLoadingCount g + (if gl_family driver then 1 else 0),
                glLoadingFailureCount := glLoadingFailureCount g + (if gl_family driver \<and> \<not> loaded then 1 else 0),
                vkLoadingCount := vkLoadingCount g + (if vk_family driver then 1 else 0),
                vkLoadingFailureCount := vkLoadingFailureCount g + (if vk_family driver \<and> \<not> loaded then 1 else 0)\<rparr>"
proof -
  let ?g' = "snd (addLoadingCount driver loaded g)"
  have "map_of (mGlobalStats (insert_stats dpn dvn code dbt app driver loaded time s)) code = Some ?g'"
    using assms(1) by (simp add: insert_stats_global_present map_of_store_umap)
  moreover have "?g' = g\<lparr>glLoadingCount := glLoadingCount g + (if gl_family driver then 1 else 0),
                glLoadingFailureCount := glLoadingFailureCount g + (if gl_family driver \<and> \<not> loaded then 1 else 0),
                vkLoadingCount := vkLoadingCount g + (if vk_family driver then 1 else 0),
                vkLoadingFailureCount := vkLoadingFailureCount g + (if vk_family driver \<and> \<not> loaded then 1 else 0)\<rparr>"
    by (rule addLoadingCount_counters)
  ultimately show ?thesis by simp
qed

theorem insert_keeps_identity_witness:
  "map_of (mGlobalStats (insert_stats ''drv'' ''1.0'' 5 1000 ''com.foo'' GL True 12 GpuStats_init)) 5
     = Some \<lparr>driverPackageName = ''drv'', driverVersionName = ''1.0'', driverVersionCode = 5,
             driverBuildTime = 1000, glLoadingCount = 1, glLoadingFailureCount = 0,
             vkLoadingCount = 0, vkLoadingFailureCount = 0\<rparr>
   \<and> supported VULKAN
   \<and> map_of (mGlobalStats (insert_stats ''other'' ''9.9'' 5 7777 ''com.bar'' VULKAN False 40
         (insert_stats ''drv'' ''1.0'' 5 1000 ''com.foo'' GL True 12 GpuStats_init))) 5
     = Some \<lparr>driverPackageName = ''drv'', driverVersionName = ''1.0'', driverVersionCode = 5,
             driverBuildTime = 1000, glLoadingCount = 1, glLoadingFailureCount = 0,
             vkLoadingCount = 1, vkLoadingFailureCount = 1\<rparr>"
proof -
  let ?s = "insert_stats ''drv'' ''1.0'' 5 1000 ''com.foo'' GL True 12 GpuStats_init"
  have a: "map_of (mGlobalStats ?s) 5
     = Some \<lparr>driverPackageName = ''drv'', driverVersionName = ''1.0'', driverVersionCode = 5,
             driverBuildTime = 1000, glLoadingCount = 1, glLoadingFailureCount = 0,
             vkLoadingCount = 0, vkLoadingFailureCount = 0\<rparr>"
    by code_simp
  have b: "supported VULKAN"
    by (simp add: supported_def vk_family_def)
  have c: "\<not> gl_family VULKAN" "vk_family VULKAN"
    by (simp_all add: gl_family_def vk_family_def)
  show ?thesis
    using a b c insert_keeps_identity [OF a b, of "''other''" "''9.9''" 7777 "''com.bar''" False 40]
    by auto
qed

subsection \<open>C4: the counters of a global record\<close>

lemma insert_all_Nil: "insert_all [] s = s"
  by (simp add: insert_all_def)

lemma insert_all_Cons: "insert_all (c # cs) s = insert_all cs (do_insert c s)"
  by (simp add: insert_all_def)

lemma do_insert_global_present:
  assumes "arg_driverVersionCode c = v" and "map_of (mGlobalStats s) v = Some g"
  shows "map_of (mGlobalStats (do_insert c s)) v =
           Some (snd (addLoadingCount (arg_driver c) (arg_isDriverLoaded c) g))"
  using assms by (cases c) (simp add: insert_stats_global_present map_of_store_umap)

lemma do_insert_global_absent:
  assumes "arg_driverVersionCode c = v" and "map_of (mGlobalStats s) v = None"
  shows "map_of (mGlobalStats (do_insert c s)) v =
           (if supported (arg_driver c)
            then Some ((snd (addLoadingCount (arg_driver c) (arg_isDriverLoaded c) GpuStatsGlobalInfo_default))
                         \<lparr>driverPackageName := arg_driverPackageName c,
                          driverVersionName := arg_driverVersionName c,
                          driverVersionCode := v,
                          driverBuildTime := arg_driverBuildTime c\<rparr>)
            else None)"
  using assms by (cases c) (simp add: insert_stats_global_absent map_add_def)

lemma totals_Cons:
  "gl_total (c # cs) = (if gl_family (arg_driver c) then 1 else 0) + gl_total cs"
  "gl_failed (c # cs) = (if gl_family (arg_driver c) \<and> \<not> arg_isDriverLoaded c then 1 else 0) + gl_failed cs"
  "vk_total (c # cs) = (if vk_family (arg_driver c) then 1 else 0) + vk_total cs"
  "vk_failed (c # cs) = (if vk_family (arg_driver c) \<and> \<not> arg_isDriverLoaded c then 1 else 0) + vk_failed cs"
  by (simp_all add: gl_total_def gl_failed_def vk_total_def vk_failed_def)

lemma totals_Nil: "gl_total [] = 0" "gl_failed [] = 0" "vk_total [] = 0" "vk_failed [] = 0"
  by (simp_all add: gl_total_def gl_failed_def vk_total_def vk_failed_def)

lemma failed_le_total: "gl_failed cs \<le> gl_total cs" "vk_failed cs \<le> vk_total cs"
  by (induction cs) (simp_all add: totals_Cons totals_Nil)

lemma unsupported_totals:
  assumes "\<not> supported (arg_driver c)"
  shows "gl_total (c # cs) = gl_total cs" "gl_failed (c # cs) = gl_failed cs"
        "vk_total (c # cs) = vk_total cs" "vk_failed (c # cs) = vk_failed cs"
  using assms by (simp_all add: totals_Cons supported_def)

lemma insert_all_present:
  assumes "\<forall>c\<in>set cs. arg_driverVersionCode c = v"
    and "map_of (mGlobalStats s) v = Some g"
  shows "\<exists>g'. map_of (mGlobalStats (insert_all cs s)) v = Some g'
           \<and> glLoadingCount g' = glLoadingCount g + gl_total cs
           \<and> glLoadingFailureCount g' = glLoadingFailureCount g + gl_failed cs
           \<and> vkLoadingCount g' = vkLoadingCount g + vk_total cs
           \<and> vkLoadingFailureCount g' = vkLoadingFailureCount g + vk_failed cs"
  using assms
proof (induction cs arbitrary: s g)
  case Nil
  then show ?case by (simp add: insert_all_Nil totals_Nil)
next
  case (Cons c cs)
  let ?g1 = "snd (addLoadingCount (arg_driver c) (arg_isDriverLoaded c) g)"
  have code: "arg_driverVersionCode c = v" and rest: "\<forall>c\<in>set cs. arg_driverVersionCode c = v"
    using Cons.prems(1) by simp_all
  have step: "map_of (mGlobalStats (do_insert c s)) v = Some ?g1"
    using code Cons.prems(2) by (rule do_insert_global_present)
  from Cons.IH [OF rest step] obtain g' where
    g': "map_of (mGlobalStats (insert_all cs (do_insert c s))) v = Some g'"
      "glLoadingCount g' = glLoadingCount ?g1 + gl_total cs"
      "glLoadingFailureCount g' = glLoadingFailureCount ?g1 + gl_failed cs"
      "vkLoadingCount g' = vkLoadingCount ?g1 + vk_total cs"
      "vkLoadingFailureCount g' = vkLoadingFailureCount ?g1 + vk_failed cs"
    by blast
  have "glLoadingCount g' = glLoadingCount g + gl_total (c # cs)"
       "glLoadingFailureCount g' = glLoadingFailureCount g + gl_failed (c # cs)"
       "vkLoadingCount g' = vkLoadingCount g + vk_total (c # cs)"
       "vkLoadingFailureCount g' = vkLoadingFailureCount g + vk_failed (c # cs)"
    using g'(2-5) by (simp_all add: addLoadingCount_counters totals_Cons)
  with g'(1) show ?case by (simp add: insert_all_Cons)
qed

lemma insert_all_absent:
  assumes "\<forall>c\<in>set cs. arg_driverVersionCode c = v"
    and "map_of (mGlobalStats s) v = None"
  shows "(if \<exists>c\<in>set cs. supported (arg_driver c)
          then \<exists>g'. map_of (mGlobalStats (insert_all cs s)) v = Some g'
                 \<and> glLoadingCount g' = gl_total cs
                 \<and> glLoadingFailureCount g' = gl_failed cs
                 \<and> vkLoadingCount g' = vk_total cs
                 \<and> vkLoadingFailureCount g' = vk_failed cs
          else map_of (mGlobalStats (insert_all cs s)) v = None)"
  using assms
proof (induction cs arbitrary: s)
  case Nil
  then show ?case by (simp add: insert_all_Nil)
next
  case (Cons c cs)
  have code: "arg_driverVersionCode c = v" and rest: "\<forall>c\<in>set cs. arg_driverVersionCode c = v"
    using Cons.prems(1) by simp_all
  note step = do_insert_global_absent [OF code Cons.prems(2)]
  show ?case
  proof (cases "supported (arg_driver c)")
    case True
    let ?g1 = "(snd (addLoadingCount (arg_driver c) (arg_isDriverLoaded c) GpuStatsGlobalInfo_default))
                 \<lparr>driverPackageName := arg_driverPackageName c,
                  driverVersionName := arg_driverVersionName c,
                  driverVersionCode := v,
                  driverBuildTime := arg_driverBuildTime c\<rparr>"
    have s1: "map_of (mGlobalStats (do_insert c s)) v = Some ?g1"
      using step True by simp
    from insert_all_present [OF rest s1] obtain g' where
      g': "map_of (mGlobalStats (insert_all cs (do_insert c s))) v = Some g'"
        "glLoadingCount g' = glLoadingCount ?g1 + gl_total cs"
        "glLoadingFailureCount g' = glLoadingFailureCount ?g1 + gl_failed cs"
        "vkLoadingCount g' = vkLoadingCount ?g1 + vk_total cs"
        "vkLoadingFailureCount g' = vkLoadingFailureCount ?g1 + vk_failed cs"
      by blast
    have "glLoadingCount g' = gl_total (c # cs)"
         "glLoadingFailureCount g' = gl_failed (c # cs)"
         "vkLoadingCount g' = vk_total (c # cs)"
         "vkLoadingFailureCount g' = vk_failed (c # cs)"
      using g'(2-5)
      by (simp_all add: addLoadingCount_counters totals_Cons GpuStatsGlobalInfo_default_def)
    with g'(1) True show ?thesis by (simp add: insert_all_Cons)
  next
    case False
    have s1: "map_of (mGlobalStats (do_insert c s)) v = None"
      using step False by simp
    from Cons.IH [OF rest s1] False show ?thesis
      by (simp add: insert_all_Cons unsupported_totals)
  qed
qed

text \<open>
  C4.  Take any sequence of \<open>insert\<close> calls that all carry the version code
  \<open>v\<close>, run from a state whose global table has no record for \<open>v\<close>.  If some
  call has a supported driver variant, the table afterwards has a record for \<open>v\<close>
  whose \<open>glLoadingCount\<close> (\<open>vkLoadingCount\<close>) is the number of calls of the
  OpenGL (Vulkan) family and whose \<open>glLoadingFailureCount\<close>
  (\<open>vkLoadingFailureCount\<close>) is the number of those with
  \<open>isDriverLoaded = false\<close>; so no failure counter exceeds the total of its family.
  If no call has a supported variant there is no record.
\<close>

theorem global_counters_count_insertions:
  assumes "\<forall>c\<in>set cs. arg_driverVersionCode c = v"
    and "map_of (mGlobalStats s) v = None"
  shows "(case map_of (mGlobalStats (insert_all cs s)) v of
            None \<Rightarrow> \<forall>c\<in>set cs. \<not> supported (arg_driver c)
          | Some g \<Rightarrow>
              (\<exists>c\<in>set cs. supported (arg_driver c))
              \<and> glLoadingCount g = gl_total cs
              \<and> glLoadingFailureCount g = gl_failed cs
              \<and> vkLoadingCount g = vk_total cs
              \<and> vkLoadingFailureCount g = vk_failed cs
              \<and> glLoadingFailureCount g \<le> glLoadingCount g
              \<and> vkLoadingFailureCount g \<le> vkLoadingCount g)"
proof (cases "\<exists>c\<in>set cs. supported (arg_driver c)")
  case True
  with insert_all_absent [OF assms] obtain g' where
    "map_of (mGlobalStats (insert_all cs s)) v = Some g'"
    "glLoadingCount g' = gl_total cs" "glLoadingFailureCount g' = gl_failed cs"
    "vkLoadingCount g' = vk_total cs" "vkLoadingFailureCount g' = vk_failed cs"
    by auto
  with True show ?thesis by (simp add: failed_le_total)
next
  case False
  with insert_all_absent [OF assms] have "map_of (mGlobalStats (insert_all cs s)) v = None"
    by simp
  with False show ?thesis by simp
qed

theorem global_counters_count_insertions_witness:
  "map_of (mGlobalStats GpuStats_init) 5 = None
   \<and> map_of (mGlobalStats (insert_all scenario_calls GpuStats_init)) 5
     = Some \<lparr>driverPackageName = ''drv'', driverVersionName = ''1.0'', driverVersionCode = 5,
             driverBuildTime = 1000, glLoadingCount = 2, glLoadingFailureCount = 1,
             vkLoadingCount = 0, vkLoadingFailureCount = 0\<rparr>
   \<and> gl_total scenario_calls = 2 \<and> gl_failed scenario_calls = 1
   \<and> vk_total scenario_calls = 0 \<and> vk_failed scenario_calls = 0"
proof -
  have h1: "\<forall>c\<in>set scenario_calls. arg_driverVersionCode c = 5"
    by (simp add: scenario_calls_def)
  have h2: "map_of (mGlobalStats GpuStats_init) 5 = None"
    by (simp add: GpuStats_init_def)
  have e: "map_of (mGlobalStats (insert_all scenario_calls GpuStats_init)) 5
     = Some \<lparr>driverPackageName = ''drv'', driverVersionName = ''1.0'', driverVersionCode = 5,
             driverBuildTime = 1000, glLoadingCount = 2, glLoadingFailureCount = 1,
             vkLoadingCount = 0, vkLoadingFailureCount = 0\<rparr>"
    by code_simp
  show ?thesis
    using h2 e global_counters_count_insertions [OF h1 h2] by simp
qed

subsection \<open>C7: the capacity of the app table\<close>

lemma length_insert_umap: "length (insert_umap m kv) \<le> Suc (length m)"
  by (simp add: insert_umap_def)

lemma keys_store_umap: "map fst (store_umap m k v) = map fst m"
  by (induction m) auto

lemma distinct_insert_umap:
  "distinct (map fst m) \<Longrightarrow> distinct (map fst (insert_umap m kv))"
  by (auto simp: insert_umap_def count_umap_0_iff map_of_eq_None_iff)

lemma insert_app_frame:
  "mAppStats (insert_app code app driver time (s\<lparr>mGlobalStats := g\<rparr>)) =
   mAppStats (insert_app code app driver time s)"
  by (simp add: insert_app_def Let_def split_def)

lemma insert_stats_app:
  "mAppStats (insert_stats dpn dvn code dbt app driver loaded time s) =
     (if supported driver then mAppStats (insert_app code app driver time s) else mAppStats s)"
proof (cases "map_of (mGlobalStats s) code")
  case None
  then show ?thesis
    by (simp add: insert_stats_def count_umap_0_iff split_def Let_def addLoadingCount_fst
        insert_app_frame)
next
  case (Some g)
  then show ?thesis
    by (simp add: insert_stats_def count_umap_0_iff split_def Let_def addLoadingCount_fst
        insert_app_frame)
qed

lemma insert_app_at_capacity:
  "MAX_NUM_APP_RECORDS \<le> size_umap (mAppStats s) \<Longrightarrow> insert_app code app driver time s = s"
  by (simp add: insert_app_def)


lemma insert_app_present_below:
  assumes "size_umap (mAppStats s) < MAX_NUM_APP_RECORDS"
    and "map_of (mAppStats s) (appStatsKey app code) = Some a"
  shows "mAppStats (insert_app code app driver time s) =
           store_umap (mAppStats s) (appStatsKey app code) (addLoadingTime driver time a)"
  using assms
  by (simp add: insert_app_def Let_def count_umap_0_iff subscript_umap_present)

lemma insert_app_absent_below:
  assumes "size_umap (mAppStats s) < MAX_NUM_APP_RECORDS"
    and "map_of (mAppStats s) (appStatsKey app code) = None"
  shows "mAppStats (insert_app code app driver time s) =
           mAppStats s @
           [(appStatsKey app code,
             (addLoadingTime driver time GpuStatsAppInfo_default)
               \<lparr>appPackageName := app, appDriverVersionCode := code\<rparr>)]"
  using assms
  by (simp add: insert_app_def Let_def count_umap_0_iff insert_umap_def)

lemma insert_app_size:
  "size_umap (mAppStats (insert_app code app driver time s)) \<le>
     max (size_umap (mAppStats s)) MAX_NUM_APP_RECORDS"
proof (cases "MAX_NUM_APP_RECORDS \<le> size_umap (mAppStats s)")
  case True
  then show ?thesis by (simp add: insert_app_at_capacity)
next
  case below: False
  show ?thesis
  proof (cases "map_of (mAppStats s) (appStatsKey app code)")
    case None
    with below show ?thesis
      by (simp add: insert_app_absent_below) (simp add: size_umap_def)
  next
    case (Some a)
    with below show ?thesis
      by (simp add: insert_app_present_below) (simp add: size_umap_def length_store_umap)
  qed
qed

lemma insert_app_distinct:
  assumes "distinct (map fst (mAppStats s))"
  shows "distinct (map fst (mAppStats (insert_app code app driver time s)))"
proof (cases "MAX_NUM_APP_RECORDS \<le> size_umap (mAppStats s)")
  case True
  with assms show ?thesis by (simp add: insert_app_at_capacity)
next
  case below: False
  show ?thesis
  proof (cases "map_of (mAppStats s) (appStatsKey app code)")
    case None
    with below assms show ?thesis
      by (simp add: insert_app_absent_below map_of_eq_None_iff)
  next
    case (Some a)
    with below assms show ?thesis
      by (simp add: insert_app_present_below keys_store_umap)
  qed
qed

lemma dump_app_table:
  "mAppStats (state_after (dump gstr astr args result s)) = mAppStats s
   \<or> mAppStats (state_after (dump gstr astr args result s)) = []"
  by (cases result) (simp_all add: dump_def Let_def)

lemma step_capacity:
  assumes "app_within_capacity s"
  shows "app_within_capacity (step gstr astr s c)"
proof (cases c)
  case (Insert ic)
  obtain dpn dvn code dbt app driver loaded time
    where ic: "ic = InsertCall dpn dvn code dbt app driver loaded time"
    by (cases ic)
  have "size_umap (mAppStats (insert_app code app driver time s)) \<le> MAX_NUM_APP_RECORDS"
    using insert_app_size [of code app driver time s] assms
    by (simp add: app_within_capacity_def)
  with assms show ?thesis
    by (simp add: Insert ic app_within_capacity_def insert_stats_app)
next
  case (Dump args result)
  from dump_app_table [of gstr astr args result s] assms show ?thesis
    by (auto simp: Dump app_within_capacity_def size_umap_def)
next
  case (PullGlobalStats outStats)
  with assms show ?thesis
    by (simp add: app_within_capacity_def pullGlobalStats_eq)
qed

lemma step_distinct:
  assumes "distinct (map fst (mAppStats s))"
  shows "distinct (map fst (mAppStats (step gstr astr s c)))"
proof (cases c)
  case (Insert ic)
  obtain dpn dvn code dbt app driver loaded time
    where ic: "ic = InsertCall dpn dvn code dbt app driver loaded time"
    by (cases ic)
  from assms show ?thesis
    by (simp add: Insert ic insert_stats_app insert_app_distinct)
next
  case (Dump args result)
  from dump_app_table [of gstr astr args result s] assms show ?thesis
    by (auto simp: Dump)
next
  case (PullGlobalStats outStats)
  with assms show ?thesis
    by (simp add: pullGlobalStats_eq)
qed

lemma run_invariant:
  assumes "app_within_capacity s" and "distinct (map fst (mAppStats s))"
  shows "app_within_capacity (run gstr astr cs s) \<and> distinct (map fst (mAppStats (run gstr astr cs s)))"
  using assms
proof (induction cs arbitrary: s)
  case Nil
  then show ?case by (simp add: run_def)
next
  case (Cons c cs)
  have "run gstr astr (c # cs) s = run gstr astr cs (step gstr astr s c)"
    by (simp add: run_def)
  with Cons.IH [OF step_capacity [OF Cons.prems(1)] step_distinct [OF Cons.prems(2)]]
  show ?case by simp
qed

lemma init_capacity: "app_within_capacity GpuStats_init"
  by (simp add: app_within_capacity_def GpuStats_init_def size_umap_def)

text \<open>
  C7.  The number of entries of the app table is at most \<open>MAX_NUM_APP_RECORDS\<close>:
  the bound holds for the empty tables, every call of \<open>insert\<close>, \<open>dump\<close> or
  \<open>pullGlobalStats\<close> keeps it, and so it holds after every sequence of calls from
  the empty tables.  The entries of such a table have pairwise different keys, so
  its size is the number of distinct entries.
\<close>

theorem app_table_capacity_invariant:
  "app_within_capacity GpuStats_init
   \<and> (app_within_capacity s \<longrightarrow> app_within_capacity (step gstr astr s c))
   \<and> app_within_capacity (run gstr astr cs GpuStats_init)
   \<and> distinct (map fst (mAppStats (run gstr astr cs GpuStats_init)))"
proof -
  have "distinct (map fst (mAppStats GpuStats_init))"
    by (simp add: GpuStats_init_def)
  from run_invariant [OF init_capacity this, of gstr astr cs] step_capacity [of s gstr astr c] init_capacity
  show ?thesis by blast
qed

theorem app_table_capacity_invariant_witness:
  "app_within_capacity (insert_all scenario_calls GpuStats_init)
   \<and> app_within_capacity
       (step driverPackageName appPackageName (insert_all scenario_calls GpuStats_init)
          (Insert (InsertCall ''drv'' ''1.0'' 5 1000 ''com.bar'' VULKAN True 9)))"
proof -
  have h: "app_within_capacity (insert_all scenario_calls GpuStats_init)"
    by code_simp
  show ?thesis
    using h app_table_capacity_invariant
      [of "insert_all scenario_calls GpuStats_init" driverPackageName appPackageName
          "Insert (InsertCall ''drv'' ''1.0'' 5 1000 ''com.bar'' VULKAN True 9)"]
    by blast
qed

subsection \<open>C1: insert when the app table is full\<close>








subsection \<open>C2: dump without a selector flag\<close>

text \<open>
  C2 (as the code has it).  Let the arguments hold neither \<open>--global\<close> nor
  \<open>--app\<close>.  Without \<open>--clear\<close>, \<open>dump\<close> appends the global table and then
  the app table to the output and clears nothing.  With \<open>--clear\<close>, it clears
  both tables and appends nothing: the branch for \<open>--clear\<close> resets
  \<open>dumpAll\<close>, so no table is written, before or after the clearing.
\<close>

theorem dump_without_selector:
  assumes "''--global'' \<notin> set args" and "''--app'' \<notin> set args"
  shows "(''--clear'' \<notin> set args \<longrightarrow>
            dump gstr astr args (Some r0) s =
              \<lparr>logged = [], report = Some (dumpAppLocked astr s (dumpGlobalLocked gstr s r0)),
               state_after = s\<rparr>)
       \<and> (''--clear'' \<in> set args \<longrightarrow>
            dump gstr astr args (Some r0) s =
              \<lparr>logged = [], report = Some r0,
               state_after = s\<lparr>mGlobalStats := [], mAppStats := []\<rparr>\<rparr>)"
  using assms by (simp add: dump_no_flags dump_clear_only)

theorem dump_without_selector_witness:
  "''--global'' \<notin> set [''--clear''] \<and> ''--app'' \<notin> set [''--clear''] \<and> ''--clear'' \<in> set [''--clear'']
   \<and> dump driverPackageName appPackageName [''--clear''] (Some ''report:'')
        (insert_stats ''drv'' ''1.0'' 5 1000 ''com.foo'' GL True 12 GpuStats_init)
      = \<lparr>logged = [], report = Some ''report:'', state_after = GpuStats_init\<rparr>
   \<and> ''--global'' \<notin> set [''-v''] \<and> ''--app'' \<notin> set [''-v''] \<and> ''--clear'' \<notin> set [''-v'']
   \<and> dump driverPackageName appPackageName [''-v''] (Some ''report:'')
        (insert_stats ''drv'' ''1.0'' 5 1000 ''com.foo'' GL True 12 GpuStats_init)
      = \<lparr>logged = [], report = Some (''report:'' @ ''drv'' @ newline @ ''com.foo'' @ newline),
         state_after = insert_stats ''drv'' ''1.0'' 5 1000 ''com.foo'' GL True 12 GpuStats_init\<rparr>"
proof -
  let ?s = "insert_stats ''drv'' ''1.0'' 5 1000 ''com.foo'' GL True 12 GpuStats_init"
  have c1: "''--global'' \<notin> set [''--clear'']" and c2: "''--app'' \<notin> set [''--clear'']"
    and c3: "''--clear'' \<in> set [''--clear'']"
    by simp_all
  have v1: "''--global'' \<notin> set [''-v'']" and v2: "''--app'' \<notin> set [''-v'']"
    and v3: "''--clear'' \<notin> set [''-v'']"
    by simp_all
  have cleared: "?s\<lparr>mGlobalStats := [], mAppStats := []\<rparr> = GpuStats_init"
    by (simp add: GpuStats_init_def)
  have shown: "dumpAppLocked appPackageName ?s (dumpGlobalLocked driverPackageName ?s ''report:'')
      = ''report:'' @ ''drv'' @ newline @ ''com.foo'' @ newline"
    by code_simp
  show ?thesis
    using c1 c2 c3 v1 v2 v3 cleared shown
      dump_without_selector [OF c1 c2, of driverPackageName appPackageName "''report:''" ?s]
      dump_without_selector [OF v1 v2, of driverPackageName appPackageName "''report:''" ?s]
    by simp
qed

text \<open>
  The spec has it that \<open>dump\<close> with the one argument \<open>--clear\<close> writes
  both tables before it clears them.  The code does not: after one \<open>insert\<close>
  the output of such a call stays empty, while the two tables print as two lines.
\<close>

theorem dump_without_selector_counterexample:
  "''--global'' \<notin> set [''--clear''] \<and> ''--app'' \<notin> set [''--clear'']
   \<and> report (dump driverPackageName appPackageName [''--clear''] (Some [])
               (insert_stats ''drv'' ''1.0'' 5 1000 ''com.foo'' GL True 12 GpuStats_init)) = Some []
   \<and> dumpAppLocked appPackageName
         (insert_stats ''drv'' ''1.0'' 5 1000 ''com.foo'' GL True 12 GpuStats_init)
         (dumpGlobalLocked driverPackageName
            (insert_stats ''drv'' ''1.0'' 5 1000 ''com.foo'' GL True 12 GpuStats_init) [])
       = ''drv'' @ newline @ ''com.foo'' @ newline"
  by code_simp

subsection \<open>C3: the key of an app record\<close>

text \<open>
  C3.  The key of an app record is the app package name followed by the decimal
  digits of the version code, with nothing between them, so two different pairs can
  have one key.  Evaluated here: \<open>com.foo1\<close> with version code 5 and
  \<open>com.foo\<close> with version code 15 both have the key \<open>com.foo15\<close>, and after
  one \<open>insert\<close> for each the app table has a single record, which names
  \<open>com.foo1\<close> and version 5 and holds the samples of both calls.
\<close>

theorem app_key_collision:
  "appStatsKey ''com.foo1'' 5 = appStatsKey ''com.foo'' 15
   \<and> mAppStats (insert_stats ''drv'' ''1.5'' 15 1000 ''com.foo'' GL False 20
                  (insert_stats ''drv'' ''0.5'' 5 1000 ''com.foo1'' GL True 10 GpuStats_init))
     = [(''com.foo15'',
         \<lparr>appPackageName = ''com.foo1'', appDriverVersionCode = 5,
          glDriverLoadingTime = [10, 20], vkDriverLoadingTime = []\<rparr>)]"
  by code_simp

end
